theory Spec2Isabelle
  imports Complex_Main "HOL-Library.Sublist"
begin

section \<open>Python values, strings and errors\<close>

text \<open>
  The agent of \<^verbatim>\<open>graph.py\<close> threads a dictionary-shaped state through the nodes of
  a graph. The values a language model puts into the preference dictionary are JSON
  scalars: a string, an integer, or null. Exceptions are values of type \<open>error\<close>.
  Strings are lists of ASCII characters.
\<close>

datatype pyval = PNone | PStr string | PInt int

datatype error =
  IndexError | KeyError | TypeError | AttributeError | ValidationError | ModelError

text \<open>Python's truth value of a scalar: \<^verbatim>\<open>None\<close>, \<^verbatim>\<open>""\<close> and \<^verbatim>\<open>0\<close> are false.\<close>

fun truthy :: "pyval \<Rightarrow> bool" where
  "truthy PNone = False"
| "truthy (PStr s) = (s \<noteq> [])"
| "truthy (PInt n) = (n \<noteq> 0)"

text \<open>\<^verbatim>\<open>str.lower()\<close> on ASCII text: the letters A to Z move to a to z.\<close>

definition lower_char :: "char \<Rightarrow> char" where
  "lower_char c =
     (case map_of (zip ''ABCDEFGHIJKLMNOPQRSTUVWXYZ'' ''abcdefghijklmnopqrstuvwxyz'') c of
        None \<Rightarrow> c
      | Some l \<Rightarrow> l)"

definition lower :: "string \<Rightarrow> string" where
  "lower s = map lower_char s"

text \<open>\<^verbatim>\<open>sub in s\<close> on strings: \<open>sub\<close> starts at some position of \<open>s\<close>.\<close>

fun str_in :: "string \<Rightarrow> string \<Rightarrow> bool" where
  "str_in sub [] = (sub = [])"
| "str_in sub (c # cs) = (prefix sub (c # cs) \<or> str_in sub cs)"

text \<open>\<^verbatim>\<open>xs[-1]\<close>: the last element, \<^verbatim>\<open>IndexError\<close> on the empty list.\<close>

definition py_last :: "'a list \<Rightarrow> error + 'a" where
  "py_last xs = (if xs = [] then Inl IndexError else Inr (last xs))"

text \<open>
  \<^verbatim>\<open>xs[i]\<close> for an integer \<open>i\<close>: positions \<open>0 .. len - 1\<close> count from the front,
  positions \<open>-len .. -1\<close> count from the end, everything else raises.
\<close>

definition py_index :: "'a list \<Rightarrow> int \<Rightarrow> error + 'a" where
  "py_index xs i =
     (if 0 \<le> i \<and> i < int (length xs) then Inr (xs ! nat i)
      else if i < 0 \<and> - int (length xs) \<le> i then Inr (xs ! nat (int (length xs) + i))
      else Inl IndexError)"

section \<open>The state of the graph\<close>

text \<open>
  \<^verbatim>\<open>UserPreferences\<close> is a dictionary from field names to values. The language model
  fills it, and nothing checks its keys at run time, so it is an association list: a
  field may be absent, and a field may hold \<^verbatim>\<open>None\<close>.
\<close>

type_synonym UserPreferences = "(string \<times> pyval) list"

record AirbnbSearchResult =
  name :: string
  price :: real
  rating :: real
  url :: string

datatype message =
  SystemMessage string
| HumanMessage string
| AIMessage string
| ToolMessage string string string

fun content :: "message \<Rightarrow> string" where
  "content (SystemMessage c) = c"
| "content (HumanMessage c) = c"
| "content (AIMessage c) = c"
| "content (ToolMessage c tool_name tool_call_id) = c"

record AgentState =
  user_preferences :: "UserPreferences option"
  search_results :: "AirbnbSearchResult list option"
  chosen_airbnb :: "AirbnbSearchResult option"
  booking_confirmation :: "string option"
  calendar_event_id :: "string option"
  messages :: "message list"

text \<open>
  A node returns a dictionary holding only the keys it sets; the graph writes each
  returned key over the state's value (no key of \<^verbatim>\<open>AgentState\<close> declares a reducer).
  In \<open>update\<close> a field is \<open>None\<close> when the node's dictionary does not hold the key.
\<close>

record update =
  set_user_preferences :: "UserPreferences option option"
  set_search_results :: "AirbnbSearchResult list option"
  set_booking_confirmation :: "string option"
  set_calendar_event_id :: "string option"
  set_messages :: "message list option"

definition no_update :: update where
  "no_update = \<lparr>set_user_preferences = None, set_search_results = None,
     set_booking_confirmation = None, set_calendar_event_id = None, set_messages = None\<rparr>"

definition merge_update :: "AgentState \<Rightarrow> update \<Rightarrow> AgentState" where
  "merge_update st u =
     st\<lparr>user_preferences :=
           (case set_user_preferences u of None \<Rightarrow> user_preferences st | Some p \<Rightarrow> p),
        search_results :=
           (case set_search_results u of None \<Rightarrow> search_results st | Some r \<Rightarrow> Some r),
        booking_confirmation :=
           (case set_booking_confirmation u of None \<Rightarrow> booking_confirmation st
            | Some b \<Rightarrow> Some b),
        calendar_event_id :=
           (case set_calendar_event_id u of None \<Rightarrow> calendar_event_id st | Some c \<Rightarrow> Some c),
        messages := (case set_messages u of None \<Rightarrow> messages st | Some ms \<Rightarrow> ms)\<rparr>"

section \<open>The tools of \<^verbatim>\<open>tools.py\<close>\<close>

text \<open>The three tools print a line and return a constant; the printed line is left out.\<close>

definition search_airbnb ::
  "string \<Rightarrow> string \<Rightarrow> string \<Rightarrow> int \<Rightarrow> int \<Rightarrow> AirbnbSearchResult list" where
  "search_airbnb city date_from date_to adults children =
     [\<lparr>name = ''Cozy Apartment in the City Center'', price = 120, rating = 48 / 10,
        url = ''https://www.airbnb.com/rooms/1''\<rparr>,
      \<lparr>name = ''Spacious Loft with a View'', price = 200, rating = 49 / 10,
        url = ''https://www.airbnb.com/rooms/2''\<rparr>,
      \<lparr>name = ''Charming Cottage near the Park'', price = 95, rating = 47 / 10,
        url = ''https://www.airbnb.com/rooms/3''\<rparr>]"

definition book_airbnb :: "string \<Rightarrow> string \<Rightarrow> string \<Rightarrow> int \<Rightarrow> int \<Rightarrow> string" where
  "book_airbnb listing_url date_from date_to adults children =
     ''Successfully booked the Airbnb listing.''"

definition create_google_calendar_event ::
  "string \<Rightarrow> string \<Rightarrow> string \<Rightarrow> string option \<Rightarrow> string" where
  "create_google_calendar_event summary start_time end_time description = ''mock_event_id''"

text \<open>
  A tool is invoked with a dictionary of keyword arguments, which is checked against the
  tool's signature first: a required argument that is absent, or holds a value of
  another type, raises and the tool's body does not run.
\<close>

definition arg_str :: "UserPreferences \<Rightarrow> string \<Rightarrow> error + string" where
  "arg_str kwargs k =
     (case map_of kwargs k of Some (PStr s) \<Rightarrow> Inr s | _ \<Rightarrow> Inl ValidationError)"

definition arg_int :: "UserPreferences \<Rightarrow> string \<Rightarrow> error + int" where
  "arg_int kwargs k =
     (case map_of kwargs k of Some (PInt n) \<Rightarrow> Inr n | _ \<Rightarrow> Inl ValidationError)"

definition arg_opt_str :: "UserPreferences \<Rightarrow> string \<Rightarrow> error + string option" where
  "arg_opt_str kwargs k =
     (case map_of kwargs k of
        None \<Rightarrow> Inr None | Some PNone \<Rightarrow> Inr None | Some (PStr s) \<Rightarrow> Inr (Some s)
      | Some (PInt n) \<Rightarrow> Inl ValidationError)"

datatype observation = Listings "AirbnbSearchResult list" | Text string

fun bind :: "error + 'a \<Rightarrow> ('a \<Rightarrow> error + 'b) \<Rightarrow> error + 'b" where
  "bind (Inl e) f = Inl e"
| "bind (Inr x) f = f x"

definition invoke_tool :: "string \<Rightarrow> UserPreferences \<Rightarrow> error + observation" where
  "invoke_tool tool_name kwargs =
     (if tool_name = ''search_airbnb'' then
        bind (arg_str kwargs ''city'') (\<lambda>city.
        bind (arg_str kwargs ''date_from'') (\<lambda>date_from.
        bind (arg_str kwargs ''date_to'') (\<lambda>date_to.
        bind (arg_int kwargs ''adults'') (\<lambda>adults.
        bind (arg_int kwargs ''children'') (\<lambda>children.
        Inr (Listings (search_airbnb city date_from date_to adults children)))))))
      else if tool_name = ''book_airbnb'' then
        bind (arg_str kwargs ''listing_url'') (\<lambda>listing_url.
        bind (arg_str kwargs ''date_from'') (\<lambda>date_from.
        bind (arg_str kwargs ''date_to'') (\<lambda>date_to.
        bind (arg_int kwargs ''adults'') (\<lambda>adults.
        bind (arg_int kwargs ''children'') (\<lambda>children.
        Inr (Text (book_airbnb listing_url date_from date_to adults children)))))))
      else if tool_name = ''create_google_calendar_event'' then
        bind (arg_str kwargs ''summary'') (\<lambda>summary.
        bind (arg_str kwargs ''start_time'') (\<lambda>start_time.
        bind (arg_str kwargs ''end_time'') (\<lambda>end_time.
        bind (arg_opt_str kwargs ''description'') (\<lambda>description.
        Inr (Text (create_google_calendar_event summary start_time end_time description))))))
      else Inl KeyError)"

text \<open>
  \<^verbatim>\<open>complete_tool_call\<close> wraps the observation into a tool message whose content is
  \<^verbatim>\<open>json.dumps(observation, indent=2)\<close>; every caller reads the observation back with
  \<^verbatim>\<open>json.loads\<close>. The JSON encoder belongs to Python's library, so it is the parameter
  \<open>dumps\<close>, and the decoded content is returned beside the message.
\<close>

definition complete_tool_call ::
  "(observation \<Rightarrow> string) \<Rightarrow> string \<Rightarrow> UserPreferences \<Rightarrow> error + message \<times> observation" where
  "complete_tool_call dumps tool_name kwargs =
     bind (invoke_tool tool_name kwargs) (\<lambda>observation.
       Inr (ToolMessage (dumps observation) tool_name ''12345'', observation))"

section \<open>The nodes\<close>

text \<open>Python's \<^verbatim>\<open>str\<close> of a natural number, of an integer and of a scalar.\<close>

definition digit :: "nat \<Rightarrow> char" where
  "digit d = ''0123456789'' ! d"

fun str_nat :: "nat \<Rightarrow> string" where
  "str_nat n = (if n < 10 then [digit n] else str_nat (n div 10) @ [digit (n mod 10)])"

definition str_int :: "int \<Rightarrow> string" where
  "str_int i = (if i < 0 then CHR ''-'' # str_nat (nat (- i)) else str_nat (nat i))"

fun py_str :: "pyval \<Rightarrow> string" where
  "py_str PNone = ''None''"
| "py_str (PStr s) = s"
| "py_str (PInt i) = str_int i"

text \<open>
  \<^verbatim>\<open>get_user_preferences\<close> sends the last message to the language model, which answers
  with a preference dictionary, with \<^verbatim>\<open>None\<close>, or raises. The model's call is the
  parameter \<open>chain\<close>. The node returns the answer as the new \<^verbatim>\<open>user_preferences\<close> and
  an empty message list.
\<close>

definition get_user_preferences ::
  "(string \<Rightarrow> error + UserPreferences option) \<Rightarrow> AgentState \<Rightarrow> error + update" where
  "get_user_preferences chain st =
     bind (py_last (messages st)) (\<lambda>m.
     bind (chain (content m)) (\<lambda>prefs.
       Inr (no_update\<lparr>set_user_preferences := Some prefs, set_messages := Some []\<rparr>)))"

definition search_for_airbnbs ::
  "(observation \<Rightarrow> string) \<Rightarrow> AgentState \<Rightarrow> error + update" where
  "search_for_airbnbs dumps st =
     (case user_preferences st of
        None \<Rightarrow> Inl TypeError
      | Some preferences \<Rightarrow>
          bind (complete_tool_call dumps ''search_airbnb'' preferences) (\<lambda>(tool_message, obs).
            (case obs of
               Listings rs \<Rightarrow>
                 Inr (no_update\<lparr>set_search_results := Some rs,
                        set_messages :=
                          Some [AIMessage ''Searching for Airbnbs...'', tool_message]\<rparr>)
             | Text t \<Rightarrow> Inl TypeError)))"

text \<open>
  \<^verbatim>\<open>present_choices\<close>: the loop over \<^verbatim>\<open>enumerate(search_results[:3])\<close> appends one
  line per listing to the message. \<open>fmt\<close> is Python's rendering of a float.
\<close>

definition newline :: string where
  "newline = [CHR 0x0A]"

definition listing_line :: "(real \<Rightarrow> string) \<Rightarrow> nat \<Rightarrow> AirbnbSearchResult \<Rightarrow> string" where
  "listing_line fmt i result =
     str_nat (i + 1) @ ''. '' @ name result @ '' - $'' @ fmt (price result)
       @ ''/night, Rating: '' @ fmt (rating result) @ newline"

fun present_loop ::
  "(real \<Rightarrow> string) \<Rightarrow> nat \<Rightarrow> AirbnbSearchResult list \<Rightarrow> string \<Rightarrow> string" where
  "present_loop fmt i [] message_content = message_content"
| "present_loop fmt i (result # results) message_content =
     present_loop fmt (i + 1) results (message_content @ listing_line fmt i result)"

definition present_header :: string where
  "present_header = ''Here are the top 3 Airbnb listings I found:'' @ newline @ newline"

definition present_choices :: "(real \<Rightarrow> string) \<Rightarrow> AgentState \<Rightarrow> error + update" where
  "present_choices fmt st =
     (case search_results st of
        None \<Rightarrow> Inl TypeError
      | Some rs \<Rightarrow>
          Inr (no_update\<lparr>set_messages :=
                 Some [AIMessage (present_loop fmt 0 (take 3 rs) present_header)]\<rparr>))"

definition book_airbnb_node ::
  "(observation \<Rightarrow> string) \<Rightarrow> AgentState \<Rightarrow> error + update" where
  "book_airbnb_node dumps st =
     (case chosen_airbnb st of
        None \<Rightarrow> Inl TypeError
      | Some chosen \<Rightarrow>
          (case user_preferences st of
             None \<Rightarrow> Inl TypeError
           | Some preferences \<Rightarrow>
               if ''listing_url'' \<in> fst ` set preferences then Inl TypeError
               else
                 bind (complete_tool_call dumps ''book_airbnb''
                         ((''listing_url'', PStr (url chosen)) # preferences))
                   (\<lambda>(tool_message, obs).
                     (case obs of
                        Text t \<Rightarrow>
                          Inr (no_update\<lparr>set_booking_confirmation := Some t,
                                 set_messages :=
                                   Some [AIMessage ''Booking the Airbnb...'', tool_message]\<rparr>)
                      | Listings rs \<Rightarrow> Inl TypeError))))"

text \<open>
  \<^verbatim>\<open>create_calendar_event_node\<close> builds its four arguments in the order the call lists
  them, so a missing listing raises before a missing date does.
\<close>

definition pref_item :: "UserPreferences option \<Rightarrow> string \<Rightarrow> error + pyval" where
  "pref_item preferences k =
     (case preferences of
        None \<Rightarrow> Inl TypeError
      | Some p \<Rightarrow> (case map_of p k of None \<Rightarrow> Inl KeyError | Some v \<Rightarrow> Inr v))"

definition calendar_kwargs :: "AgentState \<Rightarrow> error + UserPreferences" where
  "calendar_kwargs st =
     (case chosen_airbnb st of
        None \<Rightarrow> Inl TypeError
      | Some chosen \<Rightarrow>
          bind (pref_item (user_preferences st) ''date_from'') (\<lambda>date_from.
          bind (pref_item (user_preferences st) ''date_to'') (\<lambda>date_to.
            Inr [(''summary'', PStr (''Airbnb Booking: '' @ name chosen)),
                 (''start_time'', PStr (py_str date_from @ ''T09:00:00'')),
                 (''end_time'', PStr (py_str date_to @ ''T11:00:00'')),
                 (''description'',
                    PStr (''Booking confirmation for '' @ name chosen @ ''.''))])))"

definition create_calendar_event_node ::
  "(observation \<Rightarrow> string) \<Rightarrow> AgentState \<Rightarrow> error + update" where
  "create_calendar_event_node dumps st =
     bind (calendar_kwargs st) (\<lambda>kwargs.
     bind (complete_tool_call dumps ''create_google_calendar_event'' kwargs)
       (\<lambda>(tool_message, obs).
         (case obs of
            Text t \<Rightarrow>
              Inr (no_update\<lparr>set_calendar_event_id := Some t,
                     set_messages :=
                       Some [AIMessage ''Creating Google Calendar event...'', tool_message]\<rparr>)
          | Listings rs \<Rightarrow> Inl TypeError)))"

section \<open>The conditional edges\<close>

text \<open>
  \<^verbatim>\<open>should_search\<close>: the preference dictionary must be there, must not be empty, and
  \<^verbatim>\<open>all\<close> of its values must be true.
\<close>

definition should_search :: "AgentState \<Rightarrow> string" where
  "should_search st =
     (case user_preferences st of
        None \<Rightarrow> ''ask_for_info''
      | Some p \<Rightarrow>
          if p \<noteq> [] \<and> list_all truthy (map snd p) then ''search'' else ''ask_for_info'')"

text \<open>
  The body of the \<^verbatim>\<open>try\<close> block of \<^verbatim>\<open>decide_next_step\<close>: the model extracts a
  \<^verbatim>\<open>Choice\<close> (or answers \<^verbatim>\<open>None\<close>, or raises), and the listing at position
  \<^verbatim>\<open>choice - 1\<close> is written into the state.
\<close>

definition try_choice ::
  "(string \<Rightarrow> error + int option) \<Rightarrow> AgentState \<Rightarrow> string \<Rightarrow> error + AgentState" where
  "try_choice chain st last_message =
     bind (chain last_message) (\<lambda>user_choice.
       (case user_choice of
          None \<Rightarrow> Inl AttributeError
        | Some choice \<Rightarrow>
            (case search_results st of
               None \<Rightarrow> Inl TypeError
             | Some rs \<Rightarrow>
                 bind (py_index rs (choice - 1)) (\<lambda>r. Inr (st\<lparr>chosen_airbnb := Some r\<rparr>)))))"

text \<open>
  \<^verbatim>\<open>decide_next_step\<close> reads the last message before the \<^verbatim>\<open>try\<close>; every exception
  of the block leads to the keyword test. It returns the edge's label and the state.
\<close>

definition decide_next_step ::
  "(string \<Rightarrow> error + int option) \<Rightarrow> AgentState \<Rightarrow> error + string \<times> AgentState" where
  "decide_next_step chain st =
     bind (py_last (messages st)) (\<lambda>m.
       (let last_message = content m in
        case try_choice chain st last_message of
          Inr st' \<Rightarrow> Inr (''book'', st')
        | Inl e \<Rightarrow>
            if str_in ''more'' (lower last_message) \<or> str_in ''different'' (lower last_message)
            then Inr (''refine_search'', st)
            else Inr (''end'', st)))"

text \<open>
  \<^verbatim>\<open>should_create_calendar_event\<close>: the last message, lower-cased, is searched for
  \<^verbatim>\<open>yes\<close> and \<^verbatim>\<open>sure\<close>.
\<close>

definition should_create_calendar_event :: "AgentState \<Rightarrow> error + string" where
  "should_create_calendar_event st =
     bind (py_last (messages st)) (\<lambda>m.
       (let last_message = lower (content m) in
        if str_in ''yes'' last_message \<or> str_in ''sure'' last_message
        then Inr ''create_event'' else Inr ''end''))"

section \<open>The graph\<close>

datatype node =
  Get_user_preferences | Search_for_airbnbs | Present_choices | Book_airbnb
| Create_calendar_event | END

definition entry_point :: node where
  "entry_point = Get_user_preferences"

text \<open>
  A conditional edge maps the label its function returns to the next node through a
  dictionary; a label the dictionary does not hold raises.
\<close>

definition after_get_user_preferences :: "(string \<times> node) list" where
  "after_get_user_preferences = [(''search'', Search_for_airbnbs), (''ask_for_info'', END)]"

definition after_present_choices :: "(string \<times> node) list" where
  "after_present_choices =
     [(''book'', Book_airbnb), (''refine_search'', Get_user_preferences), (''end'', END)]"

definition after_book_airbnb :: "(string \<times> node) list" where
  "after_book_airbnb = [(''create_event'', Create_calendar_event), (''end'', END)]"

definition follow :: "(string \<times> node) list \<Rightarrow> string \<Rightarrow> error + node" where
  "follow table label = (case map_of table label of None \<Rightarrow> Inl KeyError | Some n \<Rightarrow> Inr n)"

text \<open>
  What the program takes from outside: the two calls of the language model, the JSON
  encoder and the rendering of a float.
\<close>

record env =
  preference_chain :: "string \<Rightarrow> error + UserPreferences option"
  choice_chain :: "string \<Rightarrow> error + int option"
  dumps :: "observation \<Rightarrow> string"
  fmt :: "real \<Rightarrow> string"

text \<open>A node runs, its update is merged into the state, and its outgoing edge is taken.\<close>

definition run_node :: "(AgentState \<Rightarrow> error + update) \<Rightarrow> AgentState \<Rightarrow> error + AgentState" where
  "run_node f st = bind (f st) (\<lambda>u. Inr (merge_update st u))"

fun step :: "env \<Rightarrow> node \<Rightarrow> AgentState \<Rightarrow> error + node \<times> AgentState" where
  "step env Get_user_preferences st =
     bind (run_node (get_user_preferences (preference_chain env)) st) (\<lambda>st'.
     bind (follow after_get_user_preferences (should_search st')) (\<lambda>n. Inr (n, st')))"
| "step env Search_for_airbnbs st =
     bind (run_node (search_for_airbnbs (dumps env)) st) (\<lambda>st'. Inr (Present_choices, st'))"
| "step env Present_choices st =
     bind (run_node (present_choices (fmt env)) st) (\<lambda>st'.
     bind (decide_next_step (choice_chain env) st') (\<lambda>(label, st'').
     bind (follow after_present_choices label) (\<lambda>n. Inr (n, st''))))"
| "step env Book_airbnb st =
     bind (run_node (book_airbnb_node (dumps env)) st) (\<lambda>st'.
     bind (should_create_calendar_event st') (\<lambda>label.
     bind (follow after_book_airbnb label) (\<lambda>n. Inr (n, st'))))"
| "step env Create_calendar_event st =
     bind (run_node (create_calendar_event_node (dumps env)) st) (\<lambda>st'. Inr (END, st'))"
| "step env END st = Inr (END, st)"

text \<open>
  One run of the graph from a node to \<open>END\<close>, with the nodes it visits. The graph has a
  cycle (\<^verbatim>\<open>refine_search\<close>), so the run takes fuel; \<open>None\<close> is a run that needs more.
\<close>

fun run :: "env \<Rightarrow> nat \<Rightarrow> node \<Rightarrow> AgentState \<Rightarrow> (error + AgentState \<times> node list) option" where
  "run env 0 n st = (if n = END then Some (Inr (st, [])) else None)"
| "run env (Suc k) n st =
     (if n = END then Some (Inr (st, []))
      else case step env n st of
             Inl e \<Rightarrow> Some (Inl e)
           | Inr (n', st') \<Rightarrow>
               (case run env k n' st' of
                  None \<Rightarrow> None
                | Some (Inl e) \<Rightarrow> Some (Inl e)
                | Some (Inr (st'', visited)) \<Rightarrow> Some (Inr (st'', n # visited))))"

section \<open>The specification's preference record\<close>

text \<open>
  The completeness invariant as the specification words it: city, date_from, date_to and
  adults are all present and adults is at least 1; children is not asked for. A field is
  present when the record holds a value for it that is neither \<^verbatim>\<open>None\<close> nor the empty
  string.
\<close>

definition field_present :: "UserPreferences \<Rightarrow> string \<Rightarrow> bool" where
  "field_present p k =
     (case map_of p k of
        None \<Rightarrow> False | Some PNone \<Rightarrow> False | Some (PStr s) \<Rightarrow> s \<noteq> [] | Some (PInt n) \<Rightarrow> True)"

definition preference_record_complete :: "UserPreferences \<Rightarrow> bool" where
  "preference_record_complete p =
     (field_present p ''city'' \<and> field_present p ''date_from'' \<and> field_present p ''date_to''
      \<and> (case map_of p ''adults'' of Some (PInt n) \<Rightarrow> 1 \<le> n | _ \<Rightarrow> False))"

definition missing_required_field :: "UserPreferences \<Rightarrow> bool" where
  "missing_required_field p =
     list_ex (\<lambda>k. \<not> field_present p k) [''city'', ''date_from'', ''date_to'', ''adults'']"

section \<open>Example inputs\<close>

definition empty_state :: AgentState where
  "empty_state = \<lparr>user_preferences = None, search_results = None, chosen_airbnb = None,
     booking_confirmation = None, calendar_event_id = None, messages = []\<rparr>"

definition paris_no_children :: UserPreferences where
  "paris_no_children =
     [(''city'', PStr ''Paris''), (''date_from'', PStr ''2025-06-01''),
      (''date_to'', PStr ''2025-06-05''), (''adults'', PInt 2), (''children'', PInt 0)]"

definition three_listings :: "AirbnbSearchResult list" where
  "three_listings = search_airbnb ''Paris'' ''2025-06-01'' ''2025-06-05'' 2 1"

definition choice_zero :: "string \<Rightarrow> error + int option" where
  "choice_zero utterance = Inr (Some 0)"

definition option_zero_state :: AgentState where
  "option_zero_state =
     empty_state\<lparr>search_results := Some three_listings,
       messages := [HumanMessage ''option 0'']\<rparr>"

definition empty_results_state :: AgentState where
  "empty_results_state = empty_state\<lparr>search_results := Some []\<rparr>"

definition paris_two_adults :: UserPreferences where
  "paris_two_adults = [(''city'', PStr ''Paris''), (''adults'', PInt 2)]"

definition refine_state :: AgentState where
  "refine_state =
     empty_state\<lparr>user_preferences := Some paris_two_adults,
       messages := [HumanMessage ''something different from June 1st'']\<rparr>"

definition extraction_empty_city :: "string \<Rightarrow> error + UserPreferences option" where
  "extraction_empty_city utterance =
     Inr (Some [(''city'', PStr ''''), (''date_from'', PStr ''2025-06-01'')])"

definition paris_adults_absent :: UserPreferences where
  "paris_adults_absent =
     [(''city'', PStr ''Paris''), (''date_from'', PStr ''2025-06-01''),
      (''date_to'', PStr ''2025-06-05''), (''children'', PInt 1)]"

definition extraction_adults_absent :: "string \<Rightarrow> error + UserPreferences option" where
  "extraction_adults_absent utterance = Inr (Some paris_adults_absent)"

definition paris_adults_none :: UserPreferences where
  "paris_adults_none =
     [(''city'', PStr ''Paris''), (''date_from'', PStr ''2025-06-01''),
      (''date_to'', PStr ''2025-06-05''), (''adults'', PNone), (''children'', PInt 1)]"

definition extraction_adults_none :: "string \<Rightarrow> error + UserPreferences option" where
  "extraction_adults_none utterance = Inr (Some paris_adults_none)"

definition first_turn_state :: AgentState where
  "first_turn_state = empty_state\<lparr>messages := [HumanMessage ''Paris, June 1st to 5th'']\<rparr>"

definition booked_state :: AgentState where
  "booked_state =
     empty_state\<lparr>user_preferences := Some paris_no_children,
       search_results := Some three_listings,
       chosen_airbnb := Some (three_listings ! 1),
       messages := [HumanMessage ''yes please'']\<rparr>"

text \<open>
  A float rendered with one decimal digit, as Python prints the prices and ratings of
  the bundled listings; an encoder that puts a string between double quotes, as
  \<^verbatim>\<open>json.dumps\<close> does for a string without special characters, and writes a
  placeholder with the length for a list of listings; and a language model whose call
  raises.
\<close>

definition float_str_example :: "real \<Rightarrow> string" where
  "float_str_example r =
     str_int \<lfloor>r\<rfloor> @ ''.'' @ str_nat (nat \<lfloor>10 * (r - of_int \<lfloor>r\<rfloor>)\<rfloor>)"

definition dumps_example :: "observation \<Rightarrow> string" where
  "dumps_example obs =
     (case obs of
        Text t \<Rightarrow> [CHR 0x22] @ t @ [CHR 0x22]
      | Listings rs \<Rightarrow> ''[...] of '' @ str_nat (length rs))"

definition chain_raises :: "string \<Rightarrow> error + 'a" where
  "chain_raises utterance = Inl ModelError"

definition example_env :: env where
  "example_env = \<lparr>preference_chain = chain_raises, choice_chain = chain_raises,
     dumps = dumps_example, fmt = float_str_example\<rparr>"

section \<open>Properties\<close>

lemma str_in_sublist: "str_in sub s = sublist sub s"
  by (induction s) (auto simp: sublist_Cons_right)

lemma str_in_iff: "str_in sub s \<longleftrightarrow> (\<exists>ps ss. s = ps @ sub @ ss)"
  by (simp add: str_in_sublist sublist_def)

subsection \<open>The guard of the search\<close>

text \<open>
  C1. The claim: the search starts exactly when the preference record is complete (city,
  both dates and adults present, adults at least 1, children not needed). The record
  below is complete, with two adults and no children, and \<^verbatim>\<open>should_search\<close>
  answers \<^verbatim>\<open>ask_for_info\<close> on it: \<^verbatim>\<open>all\<close> takes the value 0 of children for a
  missing one.
\<close>

theorem should_search_rejects_zero_children:
  "preference_record_complete paris_no_children
   \<and> should_search (empty_state\<lparr>user_preferences := Some paris_no_children\<rparr>) = ''ask_for_info''"
  by (simp add: preference_record_complete_def field_present_def paris_no_children_def
      should_search_def empty_state_def)

subsection \<open>The choice of a listing\<close>

text \<open>
  C4. The claim: a number that is no position from 1 to the count of the listings shown
  leads to \<^verbatim>\<open>refine_search\<close> or \<^verbatim>\<open>end\<close>. With three listings and the extracted choice
  0, the index is -1, which Python reads from the end: \<^verbatim>\<open>decide_next_step\<close>
  answers \<^verbatim>\<open>book\<close> and the third listing is chosen.
\<close>

theorem decide_next_step_books_choice_zero:
  "decide_next_step choice_zero option_zero_state =
     Inr (''book'', option_zero_state\<lparr>chosen_airbnb := Some (three_listings ! 2)\<rparr>)
   \<and> name (three_listings ! 2) = ''Charming Cottage near the Park''"
  by (simp add: decide_next_step_def try_choice_def choice_zero_def option_zero_state_def
      empty_state_def py_last_def py_index_def three_listings_def search_airbnb_def)

subsection \<open>The fallback of the choice\<close>

text \<open>
  C6. Whenever the structured extraction of the choice raises, \<^verbatim>\<open>decide_next_step\<close>
  returns normally, leaves the state as it is, and answers \<^verbatim>\<open>refine_search\<close> if the
  lower-cased utterance contains \<^verbatim>\<open>more\<close> or \<^verbatim>\<open>different\<close>, and \<^verbatim>\<open>end\<close>
  otherwise.
\<close>

theorem decide_next_step_fallback:
  "messages st \<noteq> [] \<Longrightarrow> chain (content (last (messages st))) = Inl e \<Longrightarrow>
   decide_next_step chain st =
     Inr (if (\<exists>ps ss. lower (content (last (messages st))) = ps @ ''more'' @ ss)
            \<or> (\<exists>ps ss. lower (content (last (messages st))) = ps @ ''different'' @ ss)
          then ''refine_search'' else ''end'', st)"
  by (simp add: decide_next_step_def try_choice_def py_last_def str_in_iff)

theorem decide_next_step_fallback_witness:
  "decide_next_step chain_raises (empty_state\<lparr>messages := [HumanMessage ''Show me MORE'']\<rparr>)
     = Inr (''refine_search'', empty_state\<lparr>messages := [HumanMessage ''Show me MORE'']\<rparr>)
   \<and> decide_next_step chain_raises (empty_state\<lparr>messages := [HumanMessage ''asdf'']\<rparr>)
     = Inr (''end'', empty_state\<lparr>messages := [HumanMessage ''asdf'']\<rparr>)"
  using decide_next_step_fallback
          [of "empty_state\<lparr>messages := [HumanMessage ''Show me MORE'']\<rparr>" chain_raises ModelError,
           unfolded str_in_iff [symmetric]]
        decide_next_step_fallback
          [of "empty_state\<lparr>messages := [HumanMessage ''asdf'']\<rparr>" chain_raises ModelError,
           unfolded str_in_iff [symmetric]]
  by (simp add: lower_def lower_char_def empty_state_def chain_raises_def)

subsection \<open>The presentation of the listings\<close>

lemma present_loop_eq:
  "present_loop f i rs acc =
     acc @ concat (map (\<lambda>k. listing_line f (i + k) (rs ! k)) [0..<length rs])"
proof (induction rs arbitrary: i acc)
  case Nil
  then show ?case by simp
next
  case (Cons r rs)
  have "[0..<length (r # rs)] = 0 # map Suc [0..<length rs]"
    by (simp add: upt_conv_Cons map_Suc_upt del: upt_Suc)
  then show ?case
    using Cons.IH [of "i + 1" "acc @ listing_line f i r"]
    by (simp add: comp_def del: upt_Suc)
qed

text \<open>
  C7. For a non-empty list of results, the message of \<^verbatim>\<open>present_choices\<close> is the
  header followed by one line for each of the first \<open>min 3 (length rs)\<close> results, in the
  order of the list; the line of the result at index \<open>k\<close> shows the position \<open>k + 1\<close>,
  the name, the price per night and the rating.
\<close>

theorem present_choices_top_three:
  assumes "search_results st = Some rs" and "rs \<noteq> []"
  shows "present_choices f st =
     Inr (no_update\<lparr>set_messages := Some [AIMessage
       (present_header @
        concat (map (\<lambda>k. str_nat (k + 1) @ ''. '' @ name (rs ! k) @ '' - $''
                       @ f (price (rs ! k)) @ ''/night, Rating: '' @ f (rating (rs ! k))
                       @ newline)
                  [0..<min 3 (length rs)]))]\<rparr>)"
proof -
  have "map (\<lambda>k. listing_line f (0 + k) (take 3 rs ! k)) [0..<length (take 3 rs)]
      = map (\<lambda>k. listing_line f k (rs ! k)) [0..<min 3 (length rs)]"
    by (rule map_cong) (auto simp: min.commute)
  then show ?thesis
    using assms(1)
    by (simp add: present_choices_def present_loop_eq listing_line_def del: upt_Suc)
qed

theorem present_choices_top_three_witness:
  "present_choices float_str_example (empty_state\<lparr>search_results := Some three_listings\<rparr>) =
     Inr (no_update\<lparr>set_messages := Some [AIMessage
       (''Here are the top 3 Airbnb listings I found:'' @ newline @ newline
        @ ''1. Cozy Apartment in the City Center - $120.0/night, Rating: 4.8'' @ newline
        @ ''2. Spacious Loft with a View - $200.0/night, Rating: 4.9'' @ newline
        @ ''3. Charming Cottage near the Park - $95.0/night, Rating: 4.7'' @ newline)]\<rparr>)"
  using present_choices_top_three
          [of "empty_state\<lparr>search_results := Some three_listings\<rparr>" three_listings
              float_str_example]
  by (simp add: empty_state_def three_listings_def search_airbnb_def present_header_def
      float_str_example_def str_int_def digit_def upt_rec)

subsection \<open>The confirmation of the calendar event\<close>

text \<open>
  C10. \<^verbatim>\<open>should_create_calendar_event\<close> answers \<^verbatim>\<open>create_event\<close> exactly when the
  lower-cased last message contains \<^verbatim>\<open>yes\<close> or \<^verbatim>\<open>sure\<close> as a substring, and
  \<^verbatim>\<open>end\<close> on every other message.
\<close>

theorem should_create_calendar_event_substring:
  "messages st \<noteq> [] \<Longrightarrow>
   should_create_calendar_event st =
     Inr (if (\<exists>ps ss. lower (content (last (messages st))) = ps @ ''yes'' @ ss)
            \<or> (\<exists>ps ss. lower (content (last (messages st))) = ps @ ''sure'' @ ss)
          then ''create_event'' else ''end'')"
  by (simp add: should_create_calendar_event_def py_last_def str_in_iff)

theorem should_create_calendar_event_substring_witness:
  "should_create_calendar_event (empty_state\<lparr>messages := [HumanMessage ''Not sure'']\<rparr>)
     = Inr ''create_event''
   \<and> should_create_calendar_event (empty_state\<lparr>messages := [HumanMessage ''Yesterday'']\<rparr>)
     = Inr ''create_event''
   \<and> should_create_calendar_event (empty_state\<lparr>messages := [HumanMessage ''No thanks'']\<rparr>)
     = Inr ''end''"
  using should_create_calendar_event_substring
          [of "empty_state\<lparr>messages := [HumanMessage ''Not sure'']\<rparr>",
           unfolded str_in_iff [symmetric]]
        should_create_calendar_event_substring
          [of "empty_state\<lparr>messages := [HumanMessage ''Yesterday'']\<rparr>",
           unfolded str_in_iff [symmetric]]
        should_create_calendar_event_substring
          [of "empty_state\<lparr>messages := [HumanMessage ''No thanks'']\<rparr>",
           unfolded str_in_iff [symmetric]]
  by (simp add: lower_def lower_char_def empty_state_def)

subsection \<open>The search tool\<close>

lemma bind_Inr: "bind m f = Inr y \<longleftrightarrow> (\<exists>x. m = Inr x \<and> f x = Inr y)"
  by (cases m) auto

lemma search_airbnb_const:
  "search_airbnb city date_from date_to adults children = search_airbnb c f t a ch"
  by (simp add: search_airbnb_def)

lemma invoke_search_Inr:
  assumes "invoke_tool ''search_airbnb'' kwargs = Inr obs"
  shows "obs = Listings (search_airbnb c f t a ch)"
proof -
  from assms obtain c' f' t' a' ch' where "obs = Listings (search_airbnb c' f' t' a' ch')"
    unfolding invoke_tool_def by (auto simp: bind_Inr)
  then show ?thesis using search_airbnb_const [of c' f' t' a' ch'] by simp
qed

lemma search_for_airbnbs_Inr:
  assumes "search_for_airbnbs d st = Inr u"
  shows "set_search_results u = Some (search_airbnb c f t a ch)"
proof -
  from assms obtain p where p: "user_preferences st = Some p"
    by (auto simp: search_for_airbnbs_def split: option.splits)
  with assms obtain tm obs where
    call: "complete_tool_call d ''search_airbnb'' p = Inr (tm, obs)"
    and u: "(case obs of Listings rs \<Rightarrow>
               Inr (no_update\<lparr>set_search_results := Some rs,
                      set_messages := Some [AIMessage ''Searching for Airbnbs...'', tm]\<rparr>)
             | Text t \<Rightarrow> Inl TypeError) = Inr u"
    by (auto simp: search_for_airbnbs_def bind_Inr)
  from call have "invoke_tool ''search_airbnb'' p = Inr obs"
    by (auto simp: complete_tool_call_def bind_Inr)
  then have "obs = Listings (search_airbnb c f t a ch)"
    by (rule invoke_search_Inr)
  with u show ?thesis by auto
qed

text \<open>
  C9. Whatever its five arguments are, \<^verbatim>\<open>search_airbnb\<close> returns the same list of
  three listings, so its result is never empty; and whenever the node
  \<^verbatim>\<open>search_for_airbnbs\<close> returns, the search results it sets are this list.
\<close>

theorem search_airbnb_fixed:
  "search_airbnb city date_from date_to adults children =
     [\<lparr>name = ''Cozy Apartment in the City Center'', price = 120, rating = 48 / 10,
        url = ''https://www.airbnb.com/rooms/1''\<rparr>,
      \<lparr>name = ''Spacious Loft with a View'', price = 200, rating = 49 / 10,
        url = ''https://www.airbnb.com/rooms/2''\<rparr>,
      \<lparr>name = ''Charming Cottage near the Park'', price = 95, rating = 47 / 10,
        url = ''https://www.airbnb.com/rooms/3''\<rparr>]
   \<and> search_airbnb city date_from date_to adults children =
       search_airbnb city' date_from' date_to' adults' children'
   \<and> length (search_airbnb city date_from date_to adults children) = 3
   \<and> search_airbnb city date_from date_to adults children \<noteq> []
   \<and> (search_for_airbnbs d st = Inr u \<longrightarrow>
        set_search_results u = Some (search_airbnb city date_from date_to adults children))"
proof -
  have "search_for_airbnbs d st = Inr u \<longrightarrow>
        set_search_results u = Some (search_airbnb city date_from date_to adults children)"
    using search_for_airbnbs_Inr by blast
  moreover have "length (search_airbnb city date_from date_to adults children) = 3"
    by (simp add: search_airbnb_def)
  moreover have "search_airbnb city date_from date_to adults children =
       search_airbnb city' date_from' date_to' adults' children'"
    by (rule search_airbnb_const)
  ultimately show ?thesis by (simp add: search_airbnb_def)
qed

theorem search_airbnb_fixed_witness:
  "search_for_airbnbs dumps_example (empty_state\<lparr>user_preferences := Some paris_no_children\<rparr>) =
     Inr (no_update\<lparr>set_search_results := Some three_listings,
            set_messages := Some [AIMessage ''Searching for Airbnbs...'',
              ToolMessage (dumps_example (Listings three_listings)) ''search_airbnb'' ''12345'']\<rparr>)
   \<and> length three_listings = 3
   \<and> search_airbnb ''Rome'' ''2026-01-01'' ''2026-01-02'' 1 0 = three_listings"
  using search_airbnb_fixed
          [of "''Rome''" "''2026-01-01''" "''2026-01-02''" 1 0
              "''Paris''" "''2025-06-01''" "''2025-06-05''" 2 1]
  by (simp add: three_listings_def search_for_airbnbs_def complete_tool_call_def
      invoke_tool_def arg_str_def arg_int_def paris_no_children_def empty_state_def
      search_airbnb_def)

subsection \<open>The calendar event\<close>

lemma step_create_calendar_event_END:
  "step env Create_calendar_event s = Inr (n, s') \<Longrightarrow> n = END"
  by (auto simp: bind_Inr)

text \<open>
  C8. With a chosen listing and both dates in the preferences,
  \<^verbatim>\<open>create_calendar_event_node\<close> calls the calendar tool with the summary
  \<^verbatim>\<open>Airbnb Booking: \<close> followed by the listing's name, the start time \<^verbatim>\<open>date_from\<close>
  followed by \<^verbatim>\<open>T09:00:00\<close>, the end time \<^verbatim>\<open>date_to\<close> followed by \<^verbatim>\<open>T11:00:00\<close>, and
  a description that holds the listing's name. The node stores the event id the tool
  returns, and the edge that follows leads to \<open>END\<close>; it does so from every state in
  which the node returns.
\<close>

theorem create_calendar_event_node_call:
  assumes "chosen_airbnb st = Some chosen" and "user_preferences st = Some p"
    and "map_of p ''date_from'' = Some date_from" and "map_of p ''date_to'' = Some date_to"
  shows "calendar_kwargs st =
       Inr [(''summary'', PStr (''Airbnb Booking: '' @ name chosen)),
            (''start_time'', PStr (py_str date_from @ ''T09:00:00'')),
            (''end_time'', PStr (py_str date_to @ ''T11:00:00'')),
            (''description'', PStr (''Booking confirmation for '' @ name chosen @ ''.''))]
   \<and> create_calendar_event_node d st =
       Inr (no_update\<lparr>set_calendar_event_id :=
                Some (create_google_calendar_event (''Airbnb Booking: '' @ name chosen)
                        (py_str date_from @ ''T09:00:00'') (py_str date_to @ ''T11:00:00'')
                        (Some (''Booking confirmation for '' @ name chosen @ ''.''))),
              set_messages :=
                Some [AIMessage ''Creating Google Calendar event...'',
                      ToolMessage (d (Text ''mock_event_id'')) ''create_google_calendar_event''
                        ''12345'']\<rparr>)
   \<and> step env Create_calendar_event st =
       Inr (END, st\<lparr>calendar_event_id := Some ''mock_event_id'',
                   messages := [AIMessage ''Creating Google Calendar event...'',
                      ToolMessage (dumps env (Text ''mock_event_id''))
                        ''create_google_calendar_event'' ''12345'']\<rparr>)
   \<and> (\<forall>s n s'. step env Create_calendar_event s = Inr (n, s') \<longrightarrow> n = END)"
proof -
  have kw: "calendar_kwargs st =
       Inr [(''summary'', PStr (''Airbnb Booking: '' @ name chosen)),
            (''start_time'', PStr (py_str date_from @ ''T09:00:00'')),
            (''end_time'', PStr (py_str date_to @ ''T11:00:00'')),
            (''description'', PStr (''Booking confirmation for '' @ name chosen @ ''.''))]"
    using assms by (simp add: calendar_kwargs_def pref_item_def)
  have node: "create_calendar_event_node dd st =
       Inr (no_update\<lparr>set_calendar_event_id := Some ''mock_event_id'',
              set_messages :=
                Some [AIMessage ''Creating Google Calendar event...'',
                      ToolMessage (dd (Text ''mock_event_id'')) ''create_google_calendar_event''
                        ''12345'']\<rparr>)" for dd
    by (simp add: create_calendar_event_node_def kw complete_tool_call_def invoke_tool_def
        arg_str_def arg_opt_str_def create_google_calendar_event_def)
  have st: "step env Create_calendar_event st =
       Inr (END, st\<lparr>calendar_event_id := Some ''mock_event_id'',
                   messages := [AIMessage ''Creating Google Calendar event...'',
                      ToolMessage (dumps env (Text ''mock_event_id''))
                        ''create_google_calendar_event'' ''12345'']\<rparr>)"
    by (simp add: node run_node_def merge_update_def no_update_def)
  show ?thesis
    using kw node [of d] st step_create_calendar_event_END
    by (simp add: create_google_calendar_event_def)
qed

theorem create_calendar_event_node_call_witness:
  "calendar_kwargs booked_state =
       Inr [(''summary'', PStr ''Airbnb Booking: Spacious Loft with a View''),
            (''start_time'', PStr ''2025-06-01T09:00:00''),
            (''end_time'', PStr ''2025-06-05T11:00:00''),
            (''description'', PStr ''Booking confirmation for Spacious Loft with a View.'')]
   \<and> step example_env Create_calendar_event booked_state =
       Inr (END, booked_state\<lparr>calendar_event_id := Some ''mock_event_id'',
                   messages := [AIMessage ''Creating Google Calendar event...'',
                      ToolMessage (dumps_example (Text ''mock_event_id''))
                        ''create_google_calendar_event'' ''12345'']\<rparr>)"
  using create_calendar_event_node_call
          [of booked_state "three_listings ! 1" paris_no_children "PStr ''2025-06-01''"
              "PStr ''2025-06-05''" dumps_example example_env]
  by (simp add: booked_state_def empty_state_def three_listings_def search_airbnb_def
      paris_no_children_def example_env_def)

subsection \<open>No search results\<close>

lemma try_choice_no_results:
  assumes "search_results st = Some []"
  shows "\<exists>e. try_choice chain st u = Inl e"
proof (cases "chain u")
  case (Inl e)
  then show ?thesis by (simp add: try_choice_def)
next
  case (Inr c)
  then show ?thesis
    using assms by (cases c) (simp_all add: try_choice_def py_index_def)
qed

lemma decide_next_step_try_fails:
  assumes "messages st \<noteq> []" and "try_choice chain st (content (last (messages st))) = Inl e"
  shows "decide_next_step chain st =
     Inr (if str_in ''more'' (lower (content (last (messages st))))
            \<or> str_in ''different'' (lower (content (last (messages st))))
          then ''refine_search'' else ''end'', st)"
  using assms by (simp add: decide_next_step_def py_last_def)

lemma present_header_keywords:
  "\<not> str_in ''more'' (lower present_header)" "\<not> str_in ''different'' (lower present_header)"
  "\<not> str_in ''no listings found'' (lower present_header)"
  by (simp_all add: present_header_def newline_def lower_def lower_char_def)

text \<open>
  C2. The claim: for zero search results \<^verbatim>\<open>present_choices\<close> tells the user that no
  listings were found. On the empty list it emits the header of the non-empty case and
  nothing else, and the header does not say so.
\<close>

theorem present_choices_empty_results_counterexample:
  "present_choices float_str_example empty_results_state =
     Inr (no_update\<lparr>set_messages := Some [AIMessage
       (''Here are the top 3 Airbnb listings I found:'' @ newline @ newline)]\<rparr>)
   \<and> \<not> str_in ''no listings found''
         (lower (''Here are the top 3 Airbnb listings I found:'' @ newline @ newline))"
  using present_header_keywords(3)
  by (simp add: present_choices_def empty_results_state_def empty_state_def present_header_def)

text \<open>
  C2, as the code has it: for zero search results \<^verbatim>\<open>present_choices\<close> returns
  normally with one message, the header \<^verbatim>\<open>Here are the top 3 Airbnb listings I found:\<close>
  without any entry. The choice that follows reads the empty list inside its \<^verbatim>\<open>try\<close>
  block, so it never books: from the node the graph goes to \<open>END\<close>, and on any last
  message \<^verbatim>\<open>decide_next_step\<close> answers \<^verbatim>\<open>refine_search\<close> or \<^verbatim>\<open>end\<close> and leaves the
  state as it is.
\<close>

theorem present_choices_empty_results:
  assumes "search_results st = Some []"
  shows "present_choices f st = Inr (no_update\<lparr>set_messages := Some [AIMessage present_header]\<rparr>)
   \<and> step env Present_choices st = Inr (END, st\<lparr>messages := [AIMessage present_header]\<rparr>)
   \<and> (messages st \<noteq> [] \<longrightarrow>
        decide_next_step chain st = Inr (''refine_search'', st)
        \<or> decide_next_step chain st = Inr (''end'', st))"
proof -
  have pc: "present_choices ff st =
      Inr (no_update\<lparr>set_messages := Some [AIMessage present_header]\<rparr>)" for ff
    using assms by (simp add: present_choices_def)
  let ?st' = "st\<lparr>messages := [AIMessage present_header]\<rparr>"
  have rn: "run_node (present_choices (fmt env)) st = Inr ?st'"
    by (simp add: run_node_def pc merge_update_def no_update_def)
  have sr: "search_results ?st' = Some []" using assms by simp
  obtain e where "try_choice (choice_chain env) ?st' (content (last (messages ?st'))) = Inl e"
    using try_choice_no_results [OF sr] by blast
  then have "decide_next_step (choice_chain env) ?st' = Inr (''end'', ?st')"
    using decide_next_step_try_fails [of ?st' "choice_chain env" e] present_header_keywords
    by simp
  then have st: "step env Present_choices st = Inr (END, ?st')"
    by (simp add: rn follow_def after_present_choices_def)
  have any: "decide_next_step chain st = Inr (''refine_search'', st)
        \<or> decide_next_step chain st = Inr (''end'', st)" if ne: "messages st \<noteq> []"
  proof -
    obtain e' where "try_choice chain st (content (last (messages st))) = Inl e'"
      using try_choice_no_results [OF assms] by blast
    then show ?thesis using decide_next_step_try_fails [OF ne] by simp
  qed
  show ?thesis using pc [of f] st any by blast
qed

theorem present_choices_empty_results_witness:
  "present_choices float_str_example empty_results_state =
     Inr (no_update\<lparr>set_messages := Some [AIMessage present_header]\<rparr>)
   \<and> step example_env Present_choices empty_results_state =
     Inr (END, empty_results_state\<lparr>messages := [AIMessage present_header]\<rparr>)"
  using present_choices_empty_results [of empty_results_state float_str_example example_env]
  by (simp add: empty_results_state_def empty_state_def)

subsection \<open>A new extraction of the preferences\<close>

lemma run_get_user_preferences:
  assumes "messages st \<noteq> []" and "chain (content (last (messages st))) = Inr new"
  shows "run_node (get_user_preferences chain) st =
     Inr (st\<lparr>user_preferences := new, messages := []\<rparr>)"
  using assms
  by (simp add: run_node_def get_user_preferences_def py_last_def merge_update_def
      no_update_def)

text \<open>
  C3. The claim: a field that is set survives a new extraction unless the extraction
  yields a non-empty value for it. Here the record holds the city Paris and two adults;
  the extraction yields an empty city and a date. Afterwards the city is empty and the
  adults are gone.
\<close>

theorem get_user_preferences_overwrites_counterexample:
  "user_preferences refine_state = Some [(''city'', PStr ''Paris''), (''adults'', PInt 2)]
   \<and> run_node (get_user_preferences extraction_empty_city) refine_state =
       Inr (refine_state\<lparr>user_preferences :=
              Some [(''city'', PStr ''''), (''date_from'', PStr ''2025-06-01'')],
            messages := []\<rparr>)"
  by (simp add: run_get_user_preferences refine_state_def paris_two_adults_def
      extraction_empty_city_def empty_state_def)

text \<open>
  C3, as the code has it: \<^verbatim>\<open>get_user_preferences\<close> replaces the whole preference
  record by what the extraction returns, whatever the record held before, and empties
  the message list.
\<close>

theorem get_user_preferences_replaces:
  "messages st \<noteq> [] \<Longrightarrow> chain (content (last (messages st))) = Inr new \<Longrightarrow>
   run_node (get_user_preferences chain) st =
     Inr (st\<lparr>user_preferences := new, messages := []\<rparr>)
   \<and> run_node (get_user_preferences chain) (st\<lparr>user_preferences := old\<rparr>) =
     Inr (st\<lparr>user_preferences := new, messages := []\<rparr>)"
  using run_get_user_preferences [of st chain new]
        run_get_user_preferences [of "st\<lparr>user_preferences := old\<rparr>" chain new]
  by simp

theorem get_user_preferences_replaces_witness:
  "run_node (get_user_preferences extraction_adults_none) refine_state =
     Inr (refine_state\<lparr>user_preferences := Some paris_adults_none, messages := []\<rparr>)
   \<and> run_node (get_user_preferences extraction_adults_none)
       (refine_state\<lparr>user_preferences := None\<rparr>) =
     Inr (refine_state\<lparr>user_preferences := Some paris_adults_none, messages := []\<rparr>)"
  using get_user_preferences_replaces
          [of refine_state extraction_adults_none "Some paris_adults_none" None]
  by (simp add: refine_state_def extraction_adults_none_def empty_state_def)

subsection \<open>Incomplete preferences\<close>

text \<open>
  C5. The claim: with a required field missing, the graph stays at the collection of
  the preferences and does not search. The record below has no \<^verbatim>\<open>adults\<close> key; all
  the values it holds are true, so \<^verbatim>\<open>should_search\<close> answers \<^verbatim>\<open>search\<close> and the
  graph moves on to \<^verbatim>\<open>search_for_airbnbs\<close>.
\<close>

theorem should_search_absent_key_counterexample:
  "missing_required_field paris_adults_absent
   \<and> should_search (empty_state\<lparr>user_preferences := Some paris_adults_absent\<rparr>) = ''search''
   \<and> step (example_env\<lparr>preference_chain := extraction_adults_absent\<rparr>)
        Get_user_preferences first_turn_state =
      Inr (Search_for_airbnbs,
           first_turn_state\<lparr>user_preferences := Some paris_adults_absent, messages := []\<rparr>)"
  by (simp add: missing_required_field_def field_present_def paris_adults_absent_def
      should_search_def empty_state_def first_turn_state_def example_env_def
      extraction_adults_absent_def run_get_user_preferences follow_def
      after_get_user_preferences_def)

lemma should_search_falsy:
  assumes "user_preferences st = Some p" and "(k, v) \<in> set p" and "\<not> truthy v"
  shows "should_search st = ''ask_for_info''"
proof -
  have "\<not> list_all truthy (map snd p)"
    using assms(2,3) by (force simp: list_all_iff)
  then show ?thesis using assms(1) by (simp add: should_search_def)
qed

text \<open>
  C5, as the code has it: when the extraction returns \<^verbatim>\<open>None\<close>, an empty record, or a
  record in which a required field holds \<^verbatim>\<open>None\<close>, an empty string or 0,
  \<^verbatim>\<open>should_search\<close> answers \<^verbatim>\<open>ask_for_info\<close> and the edge leads to \<open>END\<close>: the run
  of the graph ends having visited \<^verbatim>\<open>get_user_preferences\<close> only, so the search is not
  invoked. The next run starts at the entry point, which is \<^verbatim>\<open>get_user_preferences\<close>.
\<close>

theorem incomplete_preferences_end_run:
  assumes "messages st \<noteq> []"
    and "preference_chain env (content (last (messages st))) = Inr prefs"
    and "prefs = None \<or> prefs = Some []
         \<or> (\<exists>p k v. prefs = Some p \<and> (k, v) \<in> set p
               \<and> k \<in> set [''city'', ''date_from'', ''date_to'', ''adults''] \<and> \<not> truthy v)"
  shows "should_search (st\<lparr>user_preferences := prefs, messages := []\<rparr>) = ''ask_for_info''
   \<and> step env Get_user_preferences st =
       Inr (END, st\<lparr>user_preferences := prefs, messages := []\<rparr>)
   \<and> run env (Suc fuel) entry_point st =
       Some (Inr (st\<lparr>user_preferences := prefs, messages := []\<rparr>, [Get_user_preferences]))"
proof -
  let ?st' = "st\<lparr>user_preferences := prefs, messages := []\<rparr>"
  have ask: "should_search ?st' = ''ask_for_info''"
  proof -
    from assms(3) consider "prefs = None" | "prefs = Some []"
      | p k v where "prefs = Some p" "(k, v) \<in> set p" "\<not> truthy v"
      by blast
    then show ?thesis
    proof cases
      case 1
      then show ?thesis by (simp add: should_search_def)
    next
      case 2
      then show ?thesis by (simp add: should_search_def)
    next
      case 3
      then show ?thesis
        using should_search_falsy [of ?st' p k v] by simp
    qed
  qed
  have stp: "step env Get_user_preferences st = Inr (END, ?st')"
    using run_get_user_preferences [of st "preference_chain env" prefs] assms(1,2) ask
    by (simp add: follow_def after_get_user_preferences_def)
  have "run env (Suc fuel) entry_point st = Some (Inr (?st', [Get_user_preferences]))"
    using stp by (cases fuel) (simp_all add: entry_point_def)
  with ask stp show ?thesis by simp
qed

theorem incomplete_preferences_end_run_witness:
  "should_search (first_turn_state\<lparr>user_preferences := Some paris_adults_none, messages := []\<rparr>)
     = ''ask_for_info''
   \<and> run (example_env\<lparr>preference_chain := extraction_adults_none\<rparr>) 25 entry_point
       first_turn_state =
     Some (Inr (first_turn_state\<lparr>user_preferences := Some paris_adults_none, messages := []\<rparr>,
                [Get_user_preferences]))"
proof -
  let ?env = "example_env\<lparr>preference_chain := extraction_adults_none\<rparr>"
  have h1: "messages first_turn_state \<noteq> []"
    by (simp add: first_turn_state_def)
  have h2: "preference_chain ?env (content (last (messages first_turn_state))) =
      Inr (Some paris_adults_none)"
    by (simp add: extraction_adults_none_def)
  have "(''adults'', PNone) \<in> set paris_adults_none"
    by (simp add: paris_adults_none_def)
  then have h3: "Some paris_adults_none = None \<or> Some paris_adults_none = Some []
         \<or> (\<exists>p k v. Some paris_adults_none = Some p \<and> (k, v) \<in> set p
               \<and> k \<in> set [''city'', ''date_from'', ''date_to'', ''adults''] \<and> \<not> truthy v)"
    by (intro disjI2 exI [of _ paris_adults_none] exI [of _ "''adults''"] exI [of _ PNone])
      simp
  show ?thesis
    using incomplete_preferences_end_run [OF h1 h2 h3, of 24] by simp
qed

end
